theory Spec2Isabelle
  imports Complex_Main
begin

section \<open>CSI acquisition core of \<^verbatim>\<open>src/api/route.py\<close>\<close>

text \<open>
  The module keeps its state in four globals (\<^verbatim>\<open>collection_active\<close>,
  \<^verbatim>\<open>csi_collector\<close>, \<^verbatim>\<open>esp32_serial_handler\<close>, \<^verbatim>\<open>video_recorder\<close>) and in the
  files it writes. The embedding threads one record, \<open>world\<close>, through every
  function: the globals, the contents of the CSV files, and a trace of what was
  done to the serial devices. What the operating system answers (the clock, which
  ports discovery opens, whether a file can be opened, whether the camera delivers
  a frame) is the record \<open>env\<close>, an input of each call. An exception is a value:
  a function that can raise returns \<open>pyexn + 'a\<close> together with the state it
  had reached when it raised. \<^verbatim>\<open>print\<close> and \<^verbatim>\<open>time.sleep\<close> are left out.
  The reader threads and the capture thread run beside the caller; the embedding
  takes their calls one at a time.
\<close>

subsection \<open>Strings\<close>

definition startswith :: "string \<Rightarrow> string \<Rightarrow> bool" where
  "startswith s p = (take (length p) s = p)"

text \<open>\<^verbatim>\<open>s.split(sep)\<close> for a one-character separator: never an empty list.\<close>

fun py_split :: "char \<Rightarrow> string \<Rightarrow> string list" where
  "py_split sep [] = [[]]"
| "py_split sep (c # cs) =
     (if c = sep then [] # py_split sep cs
      else (case py_split sep cs of
              [] \<Rightarrow> [[c]]
            | w # ws \<Rightarrow> (c # w) # ws))"

subsection \<open>Data\<close>

type_synonym path = string
type_synonym row = "string list"

datatype pyexn = AttributeError | OSError

text \<open>What the devices saw: a discovery run, a command written to a port, and the
  timer thread of a bounded session.\<close>

datatype event = Discovery | Sent string string | AutoStop real

text \<open>\<^verbatim>\<open>class CSICollector\<close>. The writer and the handle are the path of the file they
  write to; \<open>'f\<close> is Python's float.\<close>

record 'f collector =
  active :: bool
  csv_file :: "path option"
  csv_writer :: "path option"
  csv_handle :: "path option"
  packet_count :: nat
  start_time :: "real option"
  latest_rssi :: "'f option"

text \<open>\<^verbatim>\<open>class ESP32SerialHandler\<close>. \<open>serial_connections\<close> holds the keys of the
  dictionary in insertion order.\<close>

record handler =
  serial_available :: bool
  serial_connections :: "string list"
  serial_threads :: "string set"
  serial_listening :: "string \<rightharpoonup> bool"

datatype capture = Capturing | Released

text \<open>\<^verbatim>\<open>class VideoRecorder\<close>.\<close>

record recorder =
  ip_camera_url :: string
  cap :: "capture option"
  out :: "path option"
  recording :: bool
  frame_count :: nat
  start_time_v :: "real option"
  video_thread :: bool
  output_path :: "path option"
  video_available :: bool

record 'f world =
  collection_active :: bool
  csi_collector :: "'f collector"
  esp32_serial_handler :: "handler option"
  video_recorder :: recorder
  files :: "path \<rightharpoonup> row list"
  trace :: "event list"

record env =
  clock :: real
  stamp :: string
  scan :: "string list"
  writable :: "string \<Rightarrow> bool"
  dirs_ok :: bool
  can_open :: "path \<Rightarrow> bool"
  serial_acks :: "nat \<Rightarrow> bool"
  camera_frame :: "(nat \<times> nat) option"
  chart :: "path \<Rightarrow> path option"

text \<open>
  \<open>clock\<close> is \<^verbatim>\<open>time.time()\<close>, \<open>stamp\<close> is
  \<^verbatim>\<open>datetime.now().strftime("%Y%m%d_%H%M%S")\<close>, \<open>scan\<close> lists the ports a discovery
  run finds and opens, \<open>writable\<close> says whether \<^verbatim>\<open>ser.write\<close> succeeds on a port,
  \<open>dirs_ok\<close> whether \<^verbatim>\<open>os.makedirs\<close> succeeds, \<open>can_open\<close> whether
  \<^verbatim>\<open>open(path, 'w')\<close> succeeds, \<open>serial_acks k\<close> whether attempt \<open>k\<close> of the
  serial-mode probe reads the acknowledgement, \<open>camera_frame\<close> is the size of the
  priming frame (\<open>None\<close>: no frame), and \<open>chart\<close> is what chart generation returns.
\<close>

text \<open>\<open>DATA_DIR\<close> stands for the directory \<^verbatim>\<open>data\<close> beside the package, which the
  module computes from its own location.\<close>

definition DATA_DIR :: path where
  "DATA_DIR = ''data''"

definition CSI_DIR :: path where
  "CSI_DIR = DATA_DIR @ ''/csi''"

definition VIDEO_DIR :: path where
  "VIDEO_DIR = DATA_DIR @ ''/video''"

definition IMAGE_DIR :: path where
  "IMAGE_DIR = DATA_DIR @ ''/images''"

definition headers :: row where
  "headers =
    [''timestamp'', ''id'', ''mac'', ''rssi'', ''rate'', ''sig_mode'', ''mcs'',
     ''bandwidth'', ''smoothing'', ''not_sounding'', ''aggregation'',
     ''stbc'', ''fec_coding'', ''sgi'', ''noise_floor'', ''ampdu_cnt'',
     ''channel'', ''secondary_channel'', ''local_timestamp'', ''ant'',
     ''sig_len'', ''rx_state'', ''len'', ''first_word'', ''data'']"

subsection \<open>\<^verbatim>\<open>ESP32SerialHandler\<close>\<close>

text \<open>\<^verbatim>\<open>auto_connect\<close>: every port of the scan is stored under its name, so a port
  already connected keeps its place and a new one is appended. It never raises.\<close>

definition auto_connect :: "env \<Rightarrow> handler \<Rightarrow> handler" where
  "auto_connect e h =
     h\<lparr>serial_connections :=
         foldl (\<lambda>cs p. if p \<in> set cs then cs else cs @ [p]) (serial_connections h) (scan e)\<rparr>"

text \<open>\<^verbatim>\<open>send_command\<close>: the result and the writes that succeeded.\<close>

definition send_command :: "env \<Rightarrow> string \<Rightarrow> handler \<Rightarrow> bool \<times> event list" where
  "send_command e command h =
     (if \<not> serial_available h \<or> serial_connections h = [] then (False, [])
      else (let ok = filter (writable e) (serial_connections h)
            in (ok \<noteq> [], map (\<lambda>port_name. Sent port_name command) ok)))"

definition is_connected :: "handler \<Rightarrow> bool" where
  "is_connected h = (serial_available h \<and> length (serial_connections h) > 0)"

definition get_connected_devices :: "handler \<Rightarrow> string list" where
  "get_connected_devices h = serial_connections h"

text \<open>\<^verbatim>\<open>start_serial_listening\<close>: one reader thread per connection. The threads run
  beside the caller; what they do is \<open>add_data\<close> on each packet line they read.\<close>

definition start_serial_listening :: "handler \<Rightarrow> bool \<times> handler" where
  "start_serial_listening h =
     (length (serial_connections h) > 0,
      h\<lparr>serial_listening :=
           (\<lambda>p. if p \<in> set (serial_connections h) then Some True else serial_listening h p),
        serial_threads := serial_threads h \<union> set (serial_connections h)\<rparr>)"

definition stop_listening :: "handler \<Rightarrow> handler" where
  "stop_listening h =
     h\<lparr>serial_listening := (\<lambda>p. map_option (\<lambda>_. False) (serial_listening h p))\<rparr>"

subsection \<open>\<^verbatim>\<open>CSICollector\<close>\<close>

definition CSICollector_init :: "'f collector" where
  "CSICollector_init =
     \<lparr>active = False, csv_file = None, csv_writer = None, csv_handle = None,
      packet_count = 0, start_time = None, latest_rssi = None\<rparr>"

text \<open>The command sent to the devices by \<^verbatim>\<open>start\<close> and \<^verbatim>\<open>stop\<close>, recorded in the
  trace.\<close>

definition command_all :: "env \<Rightarrow> string \<Rightarrow> handler \<Rightarrow> 'f world \<Rightarrow> 'f world" where
  "command_all e command h w = w\<lparr>trace := trace w @ snd (send_command e command h)\<rparr>"

text \<open>\<^verbatim>\<open>CSICollector.start\<close>. The flags are set first; the file is opened last, and
  \<^verbatim>\<open>open\<close> may raise, which leaves the function with the state reached so far.\<close>

definition start :: "env \<Rightarrow> path \<Rightarrow> real option \<Rightarrow> 'f world \<Rightarrow> (pyexn + bool) \<times> 'f world" where
  "start e csv duration w =
     (let w1 = w\<lparr>csi_collector :=
                   (csi_collector w)\<lparr>csv_file := Some csv, active := True,
                                    packet_count := 0, start_time := Some (clock e)\<rparr>,
                 collection_active := True\<rparr>;
          w2 = (case esp32_serial_handler w1 of
                  None \<Rightarrow> w1
                | Some h \<Rightarrow>
                    if is_connected h then command_all e ''start_listen'' h w1
                    else (let h' = auto_connect e h;
                              w' = w1\<lparr>esp32_serial_handler := Some h',
                                      trace := trace w1 @ [Discovery]\<rparr>
                          in if is_connected h' then command_all e ''start_listen'' h' w'
                             else w'))
      in if \<not> can_open e csv then (Inl OSError, w2)
         else (let w3 = w2\<lparr>csi_collector :=
                             (csi_collector w2)\<lparr>csv_handle := Some csv, csv_writer := Some csv\<rparr>,
                           files := (files w2)(csv \<mapsto> [headers])\<rparr>
               in (Inr True,
                   (case duration of
                      None \<Rightarrow> w3
                    | Some d \<Rightarrow> if d > 0 then w3\<lparr>trace := trace w3 @ [AutoStop d]\<rparr> else w3))))"

text \<open>\<^verbatim>\<open>csv_writer.writerow(row)\<close> on the file the writer was made for.\<close>

definition writerow :: "path \<Rightarrow> row \<Rightarrow> (path \<rightharpoonup> row list) \<Rightarrow> (path \<rightharpoonup> row list)" where
  "writerow p r fs = fs(p \<mapsto> (case fs p of None \<Rightarrow> [] | Some rs \<Rightarrow> rs) @ [r])"

text \<open>
  \<^verbatim>\<open>CSICollector.add_data\<close>. \<open>pyfloat\<close> is Python's \<^verbatim>\<open>float\<close> on a string
  (\<open>None\<close>: \<^verbatim>\<open>ValueError\<close>), \<open>timestamp\<close> is \<^verbatim>\<open>datetime.now().isoformat()\<close>.
  The outer \<^verbatim>\<open>except Exception\<close> turns two failures into the result \<^verbatim>\<open>False\<close>:
  \<^verbatim>\<open>self.csv_handle.flush()\<close> on a handle that is \<^verbatim>\<open>None\<close>, and the subtraction
  \<^verbatim>\<open>time.time() - self.start_time\<close> of the progress report (every 50th packet) on a
  start time that is \<^verbatim>\<open>None\<close>. Neither state is left behind by \<open>start\<close>.
\<close>

definition add_data :: "(string \<Rightarrow> 'f option) \<Rightarrow> string \<Rightarrow> string \<Rightarrow> 'f world \<Rightarrow> bool \<times> 'f world" where
  "add_data pyfloat timestamp csi_data w =
     (let c = csi_collector w in
      if \<not> active c \<or> csv_writer c = None then (False, w)
      else (case csv_writer c of
              None \<Rightarrow> (False, w)
            | Some wr \<Rightarrow>
                if startswith csi_data ''CSI_DATA,'' then
                  (let csv_data = drop 9 csi_data;
                       row = timestamp # py_split CHR '','' csv_data;
                       rssi_field = (if length row > 3 then Some (row ! 3) else None);
                       c1 = (case rssi_field of
                               None \<Rightarrow> c
                             | Some s \<Rightarrow>
                                 if s = [] then c
                                 else (case pyfloat s of
                                         None \<Rightarrow> c
                                       | Some v \<Rightarrow> c\<lparr>latest_rssi := Some v\<rparr>));
                       w1 = w\<lparr>csi_collector := c1, files := writerow wr row (files w)\<rparr>
                   in case csv_handle c of
                        None \<Rightarrow> (False, w1)
                      | Some _ \<Rightarrow>
                          (let c2 = c1\<lparr>packet_count := packet_count c1 + 1\<rparr>;
                               w2 = w1\<lparr>csi_collector := c2\<rparr>
                           in if packet_count c2 mod 50 = 0 \<and> start_time c2 = None
                              then (False, w2)
                              else (True, w2)))
                else (False, w)))"

text \<open>The reader threads call \<open>add_data\<close> once per line; \<open>feed\<close> is a run of such
  calls, each with the timestamp captured for it, and returns every call's result.\<close>

fun feed :: "(string \<Rightarrow> 'f option) \<Rightarrow> (string \<times> string) list \<Rightarrow> 'f world \<Rightarrow> bool list \<times> 'f world" where
  "feed pyfloat [] w = ([], w)"
| "feed pyfloat ((timestamp, line) # rest) w =
     (let (r, w1) = add_data pyfloat timestamp line w;
          (rs, w2) = feed pyfloat rest w1
      in (r # rs, w2))"

text \<open>A session that \<open>start\<close> has opened: the flag is set, the writer and the handle
  are on the session's file, and the start time is known.\<close>

definition collecting :: "'f world \<Rightarrow> bool" where
  "collecting w =
     (active (csi_collector w) \<and> csv_writer (csi_collector w) \<noteq> None \<and>
      csv_handle (csi_collector w) \<noteq> None \<and> start_time (csi_collector w) \<noteq> None)"

text \<open>What \<^verbatim>\<open>stop\<close> returns: packets, duration, csv file, chart file.\<close>

datatype stop_result = StopResult nat real "path option" "path option"

text \<open>\<^verbatim>\<open>CSICollector.stop\<close>. Chart generation is outside the core; it is asked for
  when the file exists and a packet was counted, and its failure gives no chart.\<close>

definition stop :: "env \<Rightarrow> 'f world \<Rightarrow> stop_result option \<times> 'f world" where
  "stop e w =
     (if active (csi_collector w) then
        (let w1 = w\<lparr>csi_collector := (csi_collector w)\<lparr>active := False\<rparr>,
                    collection_active := False\<rparr>;
             w2 = (case esp32_serial_handler w1 of
                     None \<Rightarrow> w1
                   | Some h \<Rightarrow> if is_connected h then command_all e ''stop_listen'' h w1 else w1);
             c = csi_collector w2;
             c' = (if csv_handle c \<noteq> None then c\<lparr>csv_handle := None, csv_writer := None\<rparr> else c);
             elapsed = (case start_time c' of
                          None \<Rightarrow> 0
                        | Some t \<Rightarrow> if t = 0 then 0 else clock e - t);
             chart_file = (case csv_file c' of
                             None \<Rightarrow> None
                           | Some f \<Rightarrow>
                               if f \<noteq> [] \<and> files w2 f \<noteq> None \<and> packet_count c' > 0
                               then chart e f else None)
         in (Some (StopResult (packet_count c') elapsed (csv_file c') chart_file),
             w2\<lparr>csi_collector := c'\<rparr>))
      else (None, w))"

subsection \<open>\<^verbatim>\<open>VideoRecorder\<close>\<close>

definition VideoRecorder_init :: "string \<Rightarrow> bool \<Rightarrow> recorder" where
  "VideoRecorder_init url CV2_AVAILABLE =
     \<lparr>ip_camera_url = url, cap = None, out = None, recording = False, frame_count = 0,
      start_time_v = None, video_thread = False, output_path = None,
      video_available = CV2_AVAILABLE\<rparr>"

text \<open>What \<^verbatim>\<open>stop_recording\<close> returns: video path, frame count, duration, image
  directory.\<close>

datatype video_result = VideoResult "path option" nat real path

text \<open>\<^verbatim>\<open>VideoRecorder.stop_recording\<close>. The capture thread has ended when the join
  returns; the frames it counted are in \<open>frame_count\<close>.\<close>

definition stop_recording :: "env \<Rightarrow> recorder \<Rightarrow> video_result option \<times> recorder" where
  "stop_recording e v =
     (if \<not> recording v then (None, v)
      else (let v1 = v\<lparr>recording := False\<rparr>;
                v2 = (if cap v1 \<noteq> None then v1\<lparr>cap := None\<rparr> else v1);
                v3 = (if out v2 \<noteq> None then v2\<lparr>out := None\<rparr> else v2);
                duration = (case start_time_v v3 of
                              None \<Rightarrow> 0
                            | Some t \<Rightarrow> if t = 0 then 0 else clock e - t)
            in (Some (VideoResult (output_path v3) (frame_count v3) duration IMAGE_DIR), v3)))"

definition video_path :: "string \<Rightarrow> string \<Rightarrow> path" where
  "video_path distance timestamp = VIDEO_DIR @ ''/video_'' @ distance @ ''m_'' @ timestamp @ ''.mp4''"

text \<open>\<^verbatim>\<open>VideoRecorder.start_recording\<close>. A failure of \<^verbatim>\<open>os.makedirs\<close> is caught by the
  function's own handler, which calls \<^verbatim>\<open>stop_recording\<close>; a camera that gives no
  priming frame has its handle released, and the released handle stays in \<open>cap\<close>.\<close>

definition start_recording :: "env \<Rightarrow> string \<Rightarrow> recorder \<Rightarrow> bool \<times> recorder" where
  "start_recording e distance v =
     (if \<not> video_available v then (False, v)
      else if recording v then (False, v)
      else if \<not> dirs_ok e then (False, snd (stop_recording e v))
      else (let v1 = v\<lparr>cap := Some Capturing\<rparr>
            in case camera_frame e of
                 None \<Rightarrow> (False, v1\<lparr>cap := Some Released\<rparr>)
               | Some (height, width) \<Rightarrow>
                   (True,
                    v1\<lparr>output_path := Some (video_path distance (stamp e)),
                       out := Some (video_path distance (stamp e)),
                       recording := True, frame_count := 0,
                       start_time_v := Some (clock e), video_thread := True\<rparr>)))"

subsection \<open>The session controller\<close>

definition ESP32SerialHandler_init :: "env \<Rightarrow> bool \<Rightarrow> handler" where
  "ESP32SerialHandler_init e SERIAL_AVAILABLE =
     (let h = \<lparr>serial_available = SERIAL_AVAILABLE, serial_connections = [],
               serial_threads = {}, serial_listening = Map.empty\<rparr>
      in if serial_available h then auto_connect e h else h)"

text \<open>The globals as the module creates them when it is loaded.\<close>

definition module_init :: "env \<Rightarrow> bool \<Rightarrow> bool \<Rightarrow> string \<Rightarrow> 'f world" where
  "module_init e SERIAL_AVAILABLE CV2_AVAILABLE url =
     \<lparr>collection_active = False,
      csi_collector = CSICollector_init,
      esp32_serial_handler =
        (if SERIAL_AVAILABLE then Some (ESP32SerialHandler_init e SERIAL_AVAILABLE) else None),
      video_recorder = VideoRecorder_init url CV2_AVAILABLE,
      files = Map.empty,
      trace = (if SERIAL_AVAILABLE then [Discovery] else [])\<rparr>"

text \<open>The body of a start request: a JSON object, with or without the key
  \<^verbatim>\<open>distance\<close>, or a JSON value of another kind, on which \<^verbatim>\<open>data.get\<close> raises.\<close>

datatype request = JsonObject "string option" | NotAnObject

text \<open>
  The answers of the two routes. \<open>Error code message\<close> is an error answer the route
  writes itself; \<open>Failed x\<close> is the answer of its exception handler (status 500,
  the exception's text as message). \<open>Started\<close> carries collection id, csv file,
  distance, devices, whether video is recording, and the video path.
\<close>

datatype response =
    Started string path string "string list" bool "path option"
  | Stopped stop_result "video_result option"
  | NothingStopped
  | Error nat string
  | Failed pyexn

definition csv_file_for :: "string \<Rightarrow> path" where
  "csv_file_for distance = CSI_DIR @ ''/csi_'' @ distance @ ''m.csv''"

text \<open>The three attempts to switch the devices to serial output (command
  \<^verbatim>\<open>"6"\<close>): the loop ends early when a command went out and its acknowledgement was
  read. Its outcome is used for nothing else. The lines the probe reads from the
  ports are not part of the state.\<close>

fun serial_mode :: "env \<Rightarrow> handler \<Rightarrow> nat list \<Rightarrow> event list" where
  "serial_mode e h [] = []"
| "serial_mode e h (attempt # rest) =
     (let (esp32_success, evs) = send_command e ''6'' h
      in if esp32_success \<and> serial_acks e attempt then evs
         else evs @ serial_mode e h rest)"

text \<open>
  \<^verbatim>\<open>start_collection\<close>. Everything is inside one \<^verbatim>\<open>try\<close>; its handler sets
  \<^verbatim>\<open>collection_active = False\<close> and answers with the exception. The request takes
  seconds: the probe and the command \<^verbatim>\<open>"1"\<close> are followed by sleeps. \<open>e\<close> is the
  environment when the request arrives (the collection id, the collector's start
  time, the CSV file, the commands); \<open>ev\<close> is the environment after the sleeps, when
  the recorder is started (the video file name and the video start time) and, if
  the listeners cannot be started, when the session is taken down again.
\<close>

definition start_collection :: "env \<Rightarrow> env \<Rightarrow> request \<Rightarrow> 'f world \<Rightarrow> response \<times> 'f world" where
  "start_collection e ev req w =
     (case req of
        NotAnObject \<Rightarrow> (Failed AttributeError, w\<lparr>collection_active := False\<rparr>)
      | JsonObject d \<Rightarrow>
          (let distance = (case d of None \<Rightarrow> ''0'' | Some s \<Rightarrow> s) in
           if collection_active w then (Error 400 ''Collection already active'', w)
           else if (case esp32_serial_handler w of
                      None \<Rightarrow> True
                    | Some h \<Rightarrow> length (get_connected_devices h) = 0)
           then (Error 400 ''No ESP32 devices connected. Please connect ESP32 and restart server.'', w)
           else if \<not> dirs_ok e then (Failed OSError, w\<lparr>collection_active := False\<rparr>)
           else
             (let csv_file = csv_file_for distance in
              case start e csv_file None w of
                (Inl x, w1) \<Rightarrow> (Failed x, w1\<lparr>collection_active := False\<rparr>)
              | (Inr success, w1) \<Rightarrow>
                  if \<not> success then (Error 500 ''Failed to start collection'', w1)
                  else
                    (case esp32_serial_handler w1 of
                       None \<Rightarrow> (Failed AttributeError, w1\<lparr>collection_active := False\<rparr>)
                     | Some h \<Rightarrow>
                         (let w2 = w1\<lparr>trace := trace w1 @ serial_mode e h [0, 1, 2]\<rparr>;
                              w3 = command_all e ''1'' h w2;
                              (video_started, v) = start_recording ev distance (video_recorder w3);
                              w4 = w3\<lparr>video_recorder := v\<rparr>;
                              (listening_started, h') = start_serial_listening h;
                              w5 = w4\<lparr>esp32_serial_handler := Some h'\<rparr>
                          in if \<not> listening_started then
                               (let w6 = snd (stop ev w5);
                                    w7 = (if video_started
                                          then w6\<lparr>video_recorder :=
                                                    snd (stop_recording ev (video_recorder w6))\<rparr>
                                          else w6)
                                in (Error 500 ''Failed to start ESP32 serial listening'', w7))
                             else
                               (Started (stamp e) csv_file distance (get_connected_devices h')
                                  video_started
                                  (if video_started then output_path v else None),
                                w5))))))"

text \<open>\<^verbatim>\<open>stop_collection\<close>. \<open>e\<close> is the environment when the collector is stopped,
  \<open>ev\<close> the environment when the recorder is stopped after it (the chart and the
  join of the capture thread lie between the two clock readings).\<close>

definition stop_collection :: "env \<Rightarrow> env \<Rightarrow> 'f world \<Rightarrow> response \<times> 'f world" where
  "stop_collection e ev w =
     (if \<not> collection_active w then (Error 400 ''No active collection'', w)
      else (let w1 = (case esp32_serial_handler w of
                        None \<Rightarrow> w
                      | Some h \<Rightarrow> w\<lparr>esp32_serial_handler := Some (stop_listening h)\<rparr>);
                (result, w2) = stop e w1;
                (video_result, v) = stop_recording ev (video_recorder w2);
                w3 = w2\<lparr>video_recorder := v\<rparr>
            in case result of
                 Some r \<Rightarrow> (Stopped r video_result, w3)
               | None \<Rightarrow> (NothingStopped, w3)))"

subsection \<open>A concrete installation\<close>

text \<open>
  A machine to run the functions on: one radio on \<^verbatim>\<open>COM3\<close>, a camera that delivers
  frames, a disk that accepts every file. The float of the runs reads decimal
  integers, as \<^verbatim>\<open>float("-70")\<close> does, and fails on text that is not a number in any
  notation (\<^verbatim>\<open>float("abc")\<close> raises \<^verbatim>\<open>ValueError\<close>); the runs give it nothing else.
\<close>

fun digits_value :: "string \<Rightarrow> nat \<Rightarrow> nat option" where
  "digits_value [] acc = Some acc"
| "digits_value (c # cs) acc =
     (let n = (of_char c :: nat)
      in if 48 \<le> n \<and> n \<le> 57 then digits_value cs (10 * acc + (n - 48)) else None)"

definition int_literal :: "string \<Rightarrow> int option" where
  "int_literal s =
     (case s of
        [] \<Rightarrow> None
      | c # cs \<Rightarrow>
          if c = CHR ''-''
          then (if cs = [] then None else map_option (\<lambda>n. - int n) (digits_value cs 0))
          else map_option int (digits_value s 0))"

definition example_env :: env where
  "example_env =
     \<lparr>clock = 100, stamp = ''20240101_120000'', scan = [''COM3''], writable = (\<lambda>_. True),
      dirs_ok = True, can_open = (\<lambda>_. True), serial_acks = (\<lambda>_. True),
      camera_frame = Some (480, 640), chart = (\<lambda>_. None)\<rparr>"

text \<open>The same machine three seconds later, when the recorder of a start request is
  started.\<close>

definition example_env_video :: env where
  "example_env_video = example_env\<lparr>clock := 103, stamp := ''20240101_120003''\<rparr>"

text \<open>The module loaded with the radio attached, and loaded before it was plugged in.\<close>

definition example_idle :: "int world" where
  "example_idle = module_init example_env True True ''http://172.20.10.11:8080/video''"

definition example_no_device :: "int world" where
  "example_no_device =
     module_init (example_env\<lparr>scan := []\<rparr>) True True ''http://172.20.10.11:8080/video''"

text \<open>A session at distance 1, right after its start request, and the same session
  after the two packet lines of the specification's scenario.\<close>

definition example_session :: "int world" where
  "example_session =
     snd (start_collection example_env example_env_video (JsonObject (Some ''1'')) example_idle)"

definition scenario_lines :: "(string \<times> string) list" where
  "scenario_lines =
     [(''2024-01-01T12:00:01.000000'', ''CSI_DATA,1,aa:bb:cc:dd:ee:ff,-65,11,1,4,...''),
      (''2024-01-01T12:00:02.000000'', ''CSI_DATA,2,aa:bb:cc:dd:ee:ff,-70,11,1,4,...'')]"

definition example_fed :: "int world" where
  "example_fed = snd (feed int_literal scenario_lines example_session)"

text \<open>A packet line as the radio sends it: the sample line of \<^verbatim>\<open>main.py\<close>, its 24th
  field the payload of 128 values (the line's \<^verbatim>\<open>len\<close>) in brackets, separated by
  commas.\<close>

definition device_line :: string where
  "device_line =
     ''CSI_DATA,37,c0:5d:89:de:0d:85,-74,11,1,4,0,1,1,1,0,0,0,-97,1,1,2,30198,0,89,0,'' @
     ''128,0,[89,16,5,0,-10,30,-21,-5,11,-27,-26,22,4,-24,-7,7,-27,28,2,-17,-28,-25,'' @
     ''-3,-4,-26,-15,-25,5,-3,-27,22,6,-23,30,-16,10,10,7,30,-27,6,7,-5,-27,-16,-28,'' @
     ''5,24,-22,-12,-4,-21,4,-23,6,-11,5,22,13,-19,-24,7,6,10,-18,-7,-24,5,15,-26,6,'' @
     ''-27,9,-17,1,13,4,-3,19,-10,-1,7,29,-1,-7,-11,-15,20,-19,14,19,-15,-25,6,-11,3,'' @
     ''1,26,-9,16,-2,-12,8,-26,-23,2,-4,-20,18,-9,-21,29,1,-4,-28,12,-26,18,5,6,20,'' @
     ''26,22,-10,-9,14,-8,8]''"

text \<open>Later the same day: the session is stopped after a minute, and the next start
  request arrives at 13:00. \<open>example_env_readonly\<close> is the same machine with a disk on
  which no file can be opened for writing.\<close>

definition example_env_later :: env where
  "example_env_later = example_env\<lparr>clock := 200, stamp := ''20240101_130000''\<rparr>"

definition example_env_later_video :: env where
  "example_env_later_video = example_env\<lparr>clock := 203, stamp := ''20240101_130003''\<rparr>"

definition example_env_readonly :: env where
  "example_env_readonly = example_env\<lparr>can_open := (\<lambda>_. False)\<rparr>"

definition example_stopped :: "int world" where
  "example_stopped =
     snd (stop_collection (example_env\<lparr>clock := 160\<rparr>) (example_env\<lparr>clock := 161\<rparr>) example_fed)"

section \<open>Properties\<close>

subsection \<open>Auxiliary facts\<close>

lemma py_split_length: "length (py_split sep s) = count_list s sep + 1"
  by (induction s) (auto split: list.splits)

lemma add_data_no_marker:
  "\<not> startswith csi_data ''CSI_DATA,'' \<Longrightarrow> add_data pyfloat timestamp csi_data w = (False, w)"
  by (auto simp: add_data_def Let_def split: option.splits)

lemma add_data_inactive:
  "\<not> active (csi_collector w) \<Longrightarrow> add_data pyfloat timestamp csi_data w = (False, w)"
  by (simp add: add_data_def)

lemma start_result:
  "fst (start e csv duration w) = (if can_open e csv then Inr True else Inl OSError)"
  by (simp add: start_def Let_def)

lemma start_success:
  assumes "start e csv duration w0 = (Inr True, w)"
  shows "collecting w" and "packet_count (csi_collector w) = 0"
    and "csv_writer (csi_collector w) = Some csv" and "files w csv = Some [headers]"
  using assms
  by (auto simp: start_def collecting_def Let_def command_all_def split: if_splits option.splits)

lemma add_data_marker:
  assumes "collecting w" and "csv_writer (csi_collector w) = Some p"
    and "startswith csi_data ''CSI_DATA,''"
  shows "fst (add_data pyfloat timestamp csi_data w) = True"
    and "collecting (snd (add_data pyfloat timestamp csi_data w))"
    and "packet_count (csi_collector (snd (add_data pyfloat timestamp csi_data w))) =
           packet_count (csi_collector w) + 1"
    and "files (snd (add_data pyfloat timestamp csi_data w)) =
           writerow p (timestamp # py_split CHR '','' (drop 9 csi_data)) (files w)"
  using assms
  by (auto simp: add_data_def collecting_def Let_def split: option.splits)

lemma add_data_count:
  assumes "collecting w"
  shows "collecting (snd (add_data pyfloat timestamp csi_data w))"
    and "packet_count (csi_collector (snd (add_data pyfloat timestamp csi_data w))) =
           packet_count (csi_collector w) + (if fst (add_data pyfloat timestamp csi_data w) then 1 else 0)"
proof -
  obtain p where p: "csv_writer (csi_collector w) = Some p"
    using assms by (auto simp: collecting_def)
  note marked = add_data_marker[OF assms p, of csi_data pyfloat timestamp]
  note unmarked = add_data_no_marker[of csi_data pyfloat timestamp w]
  show "collecting (snd (add_data pyfloat timestamp csi_data w))"
  proof (cases "startswith csi_data ''CSI_DATA,''")
    case True
    then show ?thesis using marked(2) by simp
  next
    case False
    then show ?thesis using unmarked assms by simp
  qed
  show "packet_count (csi_collector (snd (add_data pyfloat timestamp csi_data w))) =
           packet_count (csi_collector w) + (if fst (add_data pyfloat timestamp csi_data w) then 1 else 0)"
  proof (cases "startswith csi_data ''CSI_DATA,''")
    case True
    then show ?thesis using marked(1,3) by simp
  next
    case False
    then show ?thesis using unmarked by simp
  qed
qed

lemma feed_count:
  "collecting w \<Longrightarrow>
   packet_count (csi_collector (snd (feed pyfloat ls w))) =
     packet_count (csi_collector w) + count_list (fst (feed pyfloat ls w)) True"
proof (induction ls arbitrary: w)
  case Nil
  then show ?case by simp
next
  case (Cons a ls)
  obtain timestamp line where a: "a = (timestamp, line)" by (cases a)
  obtain r w1 where s: "add_data pyfloat timestamp line w = (r, w1)"
    by (cases "add_data pyfloat timestamp line w")
  obtain rs w2 where t: "feed pyfloat ls w1 = (rs, w2)"
    by (cases "feed pyfloat ls w1")
  have c1: "collecting w1"
    and n1: "packet_count (csi_collector w1) = packet_count (csi_collector w) + (if r then 1 else 0)"
    using add_data_count[OF Cons.prems, of pyfloat timestamp line] s by simp_all
  have "packet_count (csi_collector w2) = packet_count (csi_collector w1) + count_list rs True"
    using Cons.IH[OF c1] t by simp
  then show ?case
    using n1 by (simp add: a s t)
qed

lemma example_session_facts:
  "collecting example_session"
  "csv_writer (csi_collector example_session) = Some (csv_file_for ''1'')"
  "files example_session = [csv_file_for ''1'' \<mapsto> [headers]]"
  "latest_rssi (csi_collector example_session) = None"
  "packet_count (csi_collector example_session) = 0"
  by (simp_all add: example_session_def example_idle_def module_init_def ESP32SerialHandler_init_def
        auto_connect_def example_env_def example_env_video_def start_collection_def start_def Let_def CSICollector_init_def
        is_connected_def get_connected_devices_def command_all_def send_command_def
        start_recording_def VideoRecorder_init_def start_serial_listening_def collecting_def
        split: prod.splits)

lemma example_fed_facts:
  "collecting example_fed"
  "csv_writer (csi_collector example_fed) = Some (csv_file_for ''1'')"
  "latest_rssi (csi_collector example_fed) = Some (- 70)"
  "packet_count (csi_collector example_fed) = 2"
  "files example_fed (csv_file_for ''1'') =
     Some [headers,
           [''2024-01-01T12:00:01.000000'', ''1'', ''aa:bb:cc:dd:ee:ff'', ''-65'', ''11'', ''1'', ''4'', ''...''],
           [''2024-01-01T12:00:02.000000'', ''2'', ''aa:bb:cc:dd:ee:ff'', ''-70'', ''11'', ''1'', ''4'', ''...'']]"
  using example_session_facts
  by (simp_all add: example_fed_def scenario_lines_def add_data_def collecting_def Let_def
        startswith_def writerow_def int_literal_def split: option.splits)

lemma example_idle_value:
  "example_idle =
     \<lparr>collection_active = False, csi_collector = CSICollector_init,
      esp32_serial_handler =
        Some \<lparr>serial_available = True, serial_connections = [''COM3''],
              serial_threads = {}, serial_listening = Map.empty\<rparr>,
      video_recorder = VideoRecorder_init ''http://172.20.10.11:8080/video'' True,
      files = Map.empty, trace = [Discovery]\<rparr>"
  by (simp add: example_idle_def module_init_def ESP32SerialHandler_init_def auto_connect_def
        example_env_def)

lemma example_no_device_value:
  "example_no_device =
     \<lparr>collection_active = False, csi_collector = CSICollector_init,
      esp32_serial_handler =
        Some \<lparr>serial_available = True, serial_connections = [],
              serial_threads = {}, serial_listening = Map.empty\<rparr>,
      video_recorder = VideoRecorder_init ''http://172.20.10.11:8080/video'' True,
      files = Map.empty, trace = [Discovery]\<rparr>"
  by (simp add: example_no_device_def module_init_def ESP32SerialHandler_init_def auto_connect_def
        example_env_def)

lemma example_session_flags:
  "collection_active example_session" "active (csi_collector example_session)"
  "recording (video_recorder example_session)"
  by (simp_all add: example_session_def example_idle_value example_env_def example_env_video_def start_collection_def
        start_def Let_def CSICollector_init_def is_connected_def get_connected_devices_def
        command_all_def send_command_def start_recording_def VideoRecorder_init_def
        start_serial_listening_def split: prod.splits)

lemma feed_keeps:
  "collection_active (snd (feed pyfloat ls w)) = collection_active w \<and>
   active (csi_collector (snd (feed pyfloat ls w))) = active (csi_collector w) \<and>
   video_recorder (snd (feed pyfloat ls w)) = video_recorder w \<and>
   esp32_serial_handler (snd (feed pyfloat ls w)) = esp32_serial_handler w \<and>
   trace (snd (feed pyfloat ls w)) = trace w"
proof (induction ls arbitrary: w)
  case Nil
  then show ?case by simp
next
  case (Cons a ls)
  obtain timestamp line where a: "a = (timestamp, line)" by (cases a)
  have step: "collection_active (snd (add_data pyfloat timestamp line w)) = collection_active w \<and>
     active (csi_collector (snd (add_data pyfloat timestamp line w))) = active (csi_collector w) \<and>
     video_recorder (snd (add_data pyfloat timestamp line w)) = video_recorder w \<and>
     esp32_serial_handler (snd (add_data pyfloat timestamp line w)) = esp32_serial_handler w \<and>
     trace (snd (add_data pyfloat timestamp line w)) = trace w"
    by (auto simp: add_data_def Let_def split: option.splits)
  show ?case
    using Cons.IH[of "snd (add_data pyfloat timestamp line w)"] step
    by (auto simp: a split: prod.splits)
qed

lemma example_fed_flags:
  "collection_active example_fed" "active (csi_collector example_fed)"
  "recording (video_recorder example_fed)"
  using feed_keeps[of int_literal scenario_lines example_session] example_session_flags
  by (simp_all add: example_fed_def)

lemma start_files:
  "files (snd (start e csv duration w)) =
     (if can_open e csv then (files w)(csv \<mapsto> [headers]) else files w)"
  by (simp add: start_def Let_def command_all_def split: option.splits)

lemma start_flags:
  "active (csi_collector (snd (start e csv duration w)))"
  "collection_active (snd (start e csv duration w))"
  "csv_handle (csi_collector (snd (start e csv duration w))) =
     (if can_open e csv then Some csv else csv_handle (csi_collector w))"
  by (simp_all add: start_def Let_def command_all_def split: option.splits)

lemma start_collection_started:
  assumes "fst (start_collection e ev (JsonObject d) w) = Started cid f dst devs vs vp"
  shows "f = csv_file_for (case d of None \<Rightarrow> ''0'' | Some s \<Rightarrow> s)"
    and "files (snd (start_collection e ev (JsonObject d) w)) f = Some [headers]"
proof -
  let ?csv = "csv_file_for (case d of None \<Rightarrow> ''0'' | Some s \<Rightarrow> s)"
  obtain r w1 where s: "start e ?csv None w = (r, w1)"
    by (cases "start e ?csv None w")
  have o: "can_open e ?csv" and fcsv: "f = ?csv"
    using assms s start_result[of e ?csv None w]
    by (auto simp: start_collection_def Let_def split: if_splits sum.splits option.splits prod.splits)
  then have "files w1 ?csv = Some [headers]"
    using start_files[of e ?csv None w] s by simp
  moreover have "files (snd (start_collection e ev (JsonObject d) w)) = files w1"
    using assms s
    by (auto simp: start_collection_def Let_def command_all_def
        split: if_splits sum.splits option.splits prod.splits)
  ultimately show "f = ?csv" and "files (snd (start_collection e ev (JsonObject d) w)) f = Some [headers]"
    using fcsv by simp_all
qed

lemma example_stopped_facts:
  "\<not> collection_active example_stopped"
  "\<not> active (csi_collector example_stopped)"
  "files example_stopped (csv_file_for ''1'') =
     Some [headers,
           [''2024-01-01T12:00:01.000000'', ''1'', ''aa:bb:cc:dd:ee:ff'', ''-65'', ''11'', ''1'', ''4'', ''...''],
           [''2024-01-01T12:00:02.000000'', ''2'', ''aa:bb:cc:dd:ee:ff'', ''-70'', ''11'', ''1'', ''4'', ''...'']]"
  by code_simp+

lemma started_again:
  "fst (start_collection example_env_later example_env_later_video (JsonObject (Some ''1'')) example_stopped) =
     Started ''20240101_130000'' (csv_file_for ''1'') ''1'' [''COM3''] True
       (Some (video_path ''1'' ''20240101_130003''))"
  by code_simp

lemma send_command_no_discovery:
  "count_list (snd (send_command e command h)) Discovery = 0"
proof -
  have "count_list (map (\<lambda>port_name. Sent port_name command) ps) Discovery = 0" for ps
    by (induction ps) simp_all
  then show ?thesis
    by (simp add: send_command_def Let_def)
qed

lemma start_collection_while_active:
  "collection_active w \<Longrightarrow>
   start_collection e ev (JsonObject d) w = (Error 400 ''Collection already active'', w)"
  by (simp add: start_collection_def)

lemma start_recording_no_frame:
  "video_available v \<Longrightarrow> \<not> recording v \<Longrightarrow> dirs_ok e \<Longrightarrow> camera_frame e = None \<Longrightarrow>
   start_recording e distance v = (False, v\<lparr>cap := Some Released\<rparr>)"
  by (simp add: start_recording_def)

subsection \<open>Ingestion: \<^verbatim>\<open>CSICollector.add_data\<close>\<close>

text \<open>
  Claim C1, as the code has it. A line without the marker \<^verbatim>\<open>CSI_DATA,\<close> is rejected:
  \<open>add_data\<close> returns \<^verbatim>\<open>False\<close> and changes neither the collector nor any file.
  The number of fields is not looked at: on an open session every line with the
  marker is accepted and written whole, the timestamp followed by one column for
  each comma-separated field, however few these are.
\<close>

theorem add_data_marker_only:
  "(\<not> startswith line ''CSI_DATA,'' \<longrightarrow> add_data pyfloat timestamp line w = (False, w)) \<and>
   (collecting w \<and> csv_writer (csi_collector w) = Some p \<and> startswith line ''CSI_DATA,'' \<longrightarrow>
      fst (add_data pyfloat timestamp line w) = True \<and>
      files (snd (add_data pyfloat timestamp line w)) =
        writerow p (timestamp # py_split CHR '','' (drop 9 line)) (files w))"
  using add_data_no_marker[of line pyfloat timestamp w]
    add_data_marker(1,4)[of w p line pyfloat timestamp]
  by blast

theorem add_data_marker_only_witness:
  "\<not> startswith ''RSSI,1,2'' ''CSI_DATA,'' \<and>
   add_data int_literal ''2024-01-01T12:00:01'' ''RSSI,1,2'' example_session = (False, example_session) \<and>
   startswith ''CSI_DATA,7,-61'' ''CSI_DATA,'' \<and>
   fst (add_data int_literal ''2024-01-01T12:00:01'' ''CSI_DATA,7,-61'' example_session) = True \<and>
   files (snd (add_data int_literal ''2024-01-01T12:00:01'' ''CSI_DATA,7,-61'' example_session))
     (csv_file_for ''1'') = Some [headers, [''2024-01-01T12:00:01'', ''7'', ''-61'']]"
  using add_data_marker_only[of "''RSSI,1,2''" int_literal "''2024-01-01T12:00:01''" example_session
          "csv_file_for ''1''"]
    add_data_marker_only[of "''CSI_DATA,7,-61''" int_literal "''2024-01-01T12:00:01''" example_session
          "csv_file_for ''1''"]
    example_session_facts
  by (simp add: startswith_def writerow_def)

text \<open>The claim as stated also rejects a marked line with too few fields. The line
  \<^verbatim>\<open>CSI_DATA,1,2\<close> has two fields; it is accepted and becomes a row of three
  columns under the header of 25.\<close>

theorem add_data_short_line_counterexample:
  "startswith ''CSI_DATA,1,2'' ''CSI_DATA,'' \<and>
   length (py_split CHR '','' (drop 9 ''CSI_DATA,1,2'')) = 2 \<and>
   fst (add_data int_literal ''2024-01-01T12:00:01'' ''CSI_DATA,1,2'' example_session) = True \<and>
   files (snd (add_data int_literal ''2024-01-01T12:00:01'' ''CSI_DATA,1,2'' example_session))
     (csv_file_for ''1'') = Some [headers, [''2024-01-01T12:00:01'', ''1'', ''2'']]"
  using add_data_marker(1,4)[of example_session "csv_file_for ''1''" "''CSI_DATA,1,2''" int_literal
          "''2024-01-01T12:00:01''"] example_session_facts
  by (simp add: startswith_def writerow_def)

text \<open>
  Claim C4, as the code has it. A line with the marker, fed to a collector with an
  open session: \<open>add_data\<close> accepts it and appends exactly one row to the session's
  file and nothing to any other file; the row is the captured timestamp followed by
  the comma-split of the line without its first 9 characters. The row has two
  columns more than the line has commas after the marker, so it has the 25 columns
  of the header exactly when 23 commas follow the marker.
\<close>

theorem add_data_marked_line_one_row:
  assumes "collecting w" and "csv_writer (csi_collector w) = Some p"
    and "startswith line ''CSI_DATA,''"
  shows "fst (add_data pyfloat timestamp line w) = True \<and>
         files (snd (add_data pyfloat timestamp line w)) =
           (files w)(p \<mapsto> (case files w p of None \<Rightarrow> [] | Some rs \<Rightarrow> rs) @
                              [timestamp # py_split CHR '','' (drop 9 line)]) \<and>
         length (timestamp # py_split CHR '','' (drop 9 line)) =
           count_list (drop 9 line) CHR '','' + 2 \<and>
         length headers = 25 \<and>
         (length (timestamp # py_split CHR '','' (drop 9 line)) = length headers) =
           (count_list (drop 9 line) CHR '','' = 23)"
proof -
  have columns: "length (timestamp # py_split CHR '','' (drop 9 line)) =
      count_list (drop 9 line) CHR '','' + 2"
    by (simp add: py_split_length)
  have header: "length headers = 25"
    by (simp add: headers_def)
  have same: "(length (timestamp # py_split CHR '','' (drop 9 line)) = length headers) =
      (count_list (drop 9 line) CHR '','' = 23)"
    unfolding columns header by arith
  show ?thesis
    using add_data_marker(1,4)[OF assms, of pyfloat timestamp] columns header same
    by (simp only: writerow_def simp_thms)
qed

theorem add_data_marked_line_one_row_witness:
  "collecting example_session \<and>
   startswith device_line ''CSI_DATA,'' \<and>
   count_list (drop 9 device_line) CHR '','' = 150 \<and>
   fst (add_data int_literal ''2024-01-01T12:00:01'' device_line example_session) = True \<and>
   files (snd (add_data int_literal ''2024-01-01T12:00:01'' device_line example_session)) =
     [csv_file_for ''1'' \<mapsto>
        [headers, ''2024-01-01T12:00:01'' # py_split CHR '','' (drop 9 device_line)]] \<and>
   length (''2024-01-01T12:00:01'' # py_split CHR '','' (drop 9 device_line)) = 152 \<and>
   length (''2024-01-01T12:00:01'' # py_split CHR '','' (drop 9 device_line)) \<noteq> length headers"
proof -
  have m: "startswith device_line ''CSI_DATA,''"
    by (simp add: startswith_def device_line_def)
  have n: "count_list (drop 9 device_line) CHR '','' = 150"
    by (simp add: device_line_def)
  show ?thesis
    using add_data_marked_line_one_row[OF example_session_facts(1,2) m, of int_literal
        "''2024-01-01T12:00:01''"] example_session_facts(1,3) m n
    by simp
qed

text \<open>The claim as stated gives every valid packet line a row of 25 columns. The line
  of the radio has the 23 scalar fields and then the payload, 128 values separated
  by commas; it is accepted, and its row has 152 columns under the header of 25.\<close>

theorem add_data_device_line_counterexample:
  "startswith device_line ''CSI_DATA,'' \<and>
   take 23 (py_split CHR '','' (drop 9 device_line)) =
     [''37'', ''c0:5d:89:de:0d:85'', ''-74'', ''11'', ''1'', ''4'', ''0'', ''1'', ''1'', ''1'',
      ''0'', ''0'', ''0'', ''-97'', ''1'', ''1'', ''2'', ''30198'', ''0'', ''89'', ''0'', ''128'',
      ''0''] \<and>
   length (drop 23 (py_split CHR '','' (drop 9 device_line))) = 128 \<and>
   fst (add_data int_literal ''2024-01-01T12:00:01'' device_line example_session) = True \<and>
   map_option (map length)
     (files (snd (add_data int_literal ''2024-01-01T12:00:01'' device_line example_session))
        (csv_file_for ''1'')) = Some [25, 152] \<and>
   length headers = 25"
proof -
  have m: "startswith device_line ''CSI_DATA,''"
    by (simp add: startswith_def device_line_def)
  have fields: "take 23 (py_split CHR '','' (drop 9 device_line)) =
     [''37'', ''c0:5d:89:de:0d:85'', ''-74'', ''11'', ''1'', ''4'', ''0'', ''1'', ''1'', ''1'',
      ''0'', ''0'', ''0'', ''-97'', ''1'', ''1'', ''2'', ''30198'', ''0'', ''89'', ''0'', ''128'',
      ''0'']"
    by code_simp
  have n: "length (py_split CHR '','' (drop 9 device_line)) = 151"
    by (simp add: py_split_length device_line_def)
  have h: "length headers = 25"
    by (simp add: headers_def)
  show ?thesis
    using add_data_marker(1,4)[OF example_session_facts(1,2) m, of int_literal
        "''2024-01-01T12:00:01''"] example_session_facts(3) m fields n h
    by (simp add: writerow_def)
qed

text \<open>
  Claim C5. From the opening of a session (the count is 0), after any run of
  \<open>add_data\<close> calls the packet count is the number of calls that returned
  \<^verbatim>\<open>True\<close>. For the two lines of the scenario both calls are accepted, the count is
  2, and the latest signal strength is the float of \<^verbatim>\<open>-70\<close>.
\<close>

theorem packet_count_counts_accepted:
  assumes "collecting w" and "packet_count (csi_collector w) = 0"
  shows "packet_count (csi_collector (snd (feed pyfloat ls w))) =
           count_list (fst (feed pyfloat ls w)) True \<and>
         (pyfloat ''-70'' = Some v \<longrightarrow>
            fst (feed pyfloat
                   [(t1, ''CSI_DATA,1,aa:bb:cc:dd:ee:ff,-65,11,1,4,...''),
                    (t2, ''CSI_DATA,2,aa:bb:cc:dd:ee:ff,-70,11,1,4,...'')] w) = [True, True] \<and>
            packet_count (csi_collector (snd (feed pyfloat
                   [(t1, ''CSI_DATA,1,aa:bb:cc:dd:ee:ff,-65,11,1,4,...''),
                    (t2, ''CSI_DATA,2,aa:bb:cc:dd:ee:ff,-70,11,1,4,...'')] w))) = 2 \<and>
            latest_rssi (csi_collector (snd (feed pyfloat
                   [(t1, ''CSI_DATA,1,aa:bb:cc:dd:ee:ff,-65,11,1,4,...''),
                    (t2, ''CSI_DATA,2,aa:bb:cc:dd:ee:ff,-70,11,1,4,...'')] w))) = Some v)"
proof -
  note s = assms
  have general: "packet_count (csi_collector (snd (feed pyfloat ls w))) =
           count_list (fst (feed pyfloat ls w)) True"
    using feed_count[OF s(1), of pyfloat ls] s(2) by simp
  have scenario: "fst (feed pyfloat
                   [(t1, ''CSI_DATA,1,aa:bb:cc:dd:ee:ff,-65,11,1,4,...''),
                    (t2, ''CSI_DATA,2,aa:bb:cc:dd:ee:ff,-70,11,1,4,...'')] w) = [True, True] \<and>
            packet_count (csi_collector (snd (feed pyfloat
                   [(t1, ''CSI_DATA,1,aa:bb:cc:dd:ee:ff,-65,11,1,4,...''),
                    (t2, ''CSI_DATA,2,aa:bb:cc:dd:ee:ff,-70,11,1,4,...'')] w))) = 2 \<and>
            latest_rssi (csi_collector (snd (feed pyfloat
                   [(t1, ''CSI_DATA,1,aa:bb:cc:dd:ee:ff,-65,11,1,4,...''),
                    (t2, ''CSI_DATA,2,aa:bb:cc:dd:ee:ff,-70,11,1,4,...'')] w))) = Some v"
    if "pyfloat ''-70'' = Some v"
    using s that
    by (auto simp: add_data_def collecting_def Let_def startswith_def split: option.splits)
  show ?thesis using general scenario by blast
qed

theorem packet_count_counts_accepted_witness:
  "collecting example_session \<and> packet_count (csi_collector example_session) = 0 \<and>
   int_literal ''-70'' = Some (- 70) \<and>
   fst (feed int_literal scenario_lines example_session) = [True, True] \<and>
   packet_count (csi_collector (snd (feed int_literal scenario_lines example_session))) = 2 \<and>
   latest_rssi (csi_collector (snd (feed int_literal scenario_lines example_session))) = Some (- 70)"
proof -
  have f: "int_literal ''-70'' = Some (- 70)"
    by (simp add: int_literal_def)
  show ?thesis
    using packet_count_counts_accepted[OF example_session_facts(1,5), of int_literal scenario_lines
        "- 70" "''2024-01-01T12:00:01.000000''" "''2024-01-01T12:00:02.000000''"]
      f example_session_facts(1,5)
    by (simp add: scenario_lines_def)
qed

text \<open>
  Claim C6. An accepted packet line whose signal-strength field (column 3 of the
  row, after timestamp, id and mac) does not parse as a float: \<open>add_data\<close> still
  returns \<^verbatim>\<open>True\<close>, the latest signal strength keeps the value it had, and the whole
  row is written to the session's file.
\<close>

theorem add_data_rssi_parse_failure:
  assumes "collecting w" and "csv_writer (csi_collector w) = Some p"
    and "startswith line ''CSI_DATA,''"
    and "length (timestamp # py_split CHR '','' (drop 9 line)) > 3"
    and "pyfloat ((timestamp # py_split CHR '','' (drop 9 line)) ! 3) = None"
  shows "fst (add_data pyfloat timestamp line w) = True \<and>
         latest_rssi (csi_collector (snd (add_data pyfloat timestamp line w))) =
           latest_rssi (csi_collector w) \<and>
         files (snd (add_data pyfloat timestamp line w)) =
           writerow p (timestamp # py_split CHR '','' (drop 9 line)) (files w)"
  using assms
  by (auto simp: add_data_def collecting_def Let_def split: option.splits)

theorem add_data_rssi_parse_failure_witness:
  "collecting example_fed \<and>
   startswith ''CSI_DATA,3,aa:bb:cc:dd:ee:ff,weak,11'' ''CSI_DATA,'' \<and>
   (''2024-01-01T12:00:03'' # py_split CHR '','' (drop 9 ''CSI_DATA,3,aa:bb:cc:dd:ee:ff,weak,11'')) ! 3
      = ''weak'' \<and>
   int_literal ''weak'' = None \<and>
   latest_rssi (csi_collector example_fed) = Some (- 70) \<and>
   fst (add_data int_literal ''2024-01-01T12:00:03'' ''CSI_DATA,3,aa:bb:cc:dd:ee:ff,weak,11''
          example_fed) = True \<and>
   latest_rssi (csi_collector (snd (add_data int_literal ''2024-01-01T12:00:03''
          ''CSI_DATA,3,aa:bb:cc:dd:ee:ff,weak,11'' example_fed))) = Some (- 70) \<and>
   files (snd (add_data int_literal ''2024-01-01T12:00:03''
          ''CSI_DATA,3,aa:bb:cc:dd:ee:ff,weak,11'' example_fed)) (csv_file_for ''1'') =
     Some [headers,
           [''2024-01-01T12:00:01.000000'', ''1'', ''aa:bb:cc:dd:ee:ff'', ''-65'', ''11'', ''1'', ''4'', ''...''],
           [''2024-01-01T12:00:02.000000'', ''2'', ''aa:bb:cc:dd:ee:ff'', ''-70'', ''11'', ''1'', ''4'', ''...''],
           [''2024-01-01T12:00:03'', ''3'', ''aa:bb:cc:dd:ee:ff'', ''weak'', ''11'']]"
proof -
  have m: "startswith ''CSI_DATA,3,aa:bb:cc:dd:ee:ff,weak,11'' ''CSI_DATA,''"
    by (simp add: startswith_def)
  have r: "py_split CHR '','' (drop 9 ''CSI_DATA,3,aa:bb:cc:dd:ee:ff,weak,11'') =
             [''3'', ''aa:bb:cc:dd:ee:ff'', ''weak'', ''11'']"
    by simp
  have f: "int_literal ''weak'' = None"
    by (simp add: int_literal_def)
  show ?thesis
    using add_data_rssi_parse_failure[OF example_fed_facts(1,2) m, of "''2024-01-01T12:00:03''"
        int_literal] example_fed_facts m f
    by (simp add: r writerow_def)
qed

subsection \<open>Stopping and starting\<close>

text \<open>
  Claim C8. Stop is idempotent. \<^verbatim>\<open>CSICollector.stop\<close> on a collector that is not
  active returns \<^verbatim>\<open>None\<close> and changes nothing, and so does
  \<^verbatim>\<open>VideoRecorder.stop_recording\<close> on a recorder that is not recording; hence the
  second of two stops in a row, of either kind, is such a call, whatever the first
  one did.
\<close>

theorem stop_twice_is_noop:
  "(\<not> active (csi_collector w) \<longrightarrow> stop e w = (None, w)) \<and>
   (\<not> recording v \<longrightarrow> stop_recording e v = (None, v)) \<and>
   stop e' (snd (stop e w)) = (None, snd (stop e w)) \<and>
   stop_recording e' (snd (stop_recording e v)) = (None, snd (stop_recording e v))"
  by (simp add: stop_def stop_recording_def Let_def command_all_def split: option.splits)

theorem stop_twice_is_noop_witness:
  "\<not> active (csi_collector example_idle) \<and>
   stop example_env example_idle = (None, example_idle) \<and>
   \<not> recording (video_recorder example_idle) \<and>
   stop_recording example_env (video_recorder example_idle) = (None, video_recorder example_idle) \<and>
   active (csi_collector example_fed) \<and>
   fst (stop example_env example_fed) \<noteq> None \<and>
   stop example_env (snd (stop example_env example_fed)) = (None, snd (stop example_env example_fed)) \<and>
   recording (video_recorder example_fed) \<and>
   fst (stop_recording example_env (video_recorder example_fed)) \<noteq> None \<and>
   stop_recording example_env (snd (stop_recording example_env (video_recorder example_fed))) =
     (None, snd (stop_recording example_env (video_recorder example_fed)))"
proof -
  have idle: "\<not> active (csi_collector example_idle)" "\<not> recording (video_recorder example_idle)"
    by (simp_all add: example_idle_value CSICollector_init_def VideoRecorder_init_def)
  have first: "fst (stop example_env example_fed) \<noteq> None"
    "fst (stop_recording example_env (video_recorder example_fed)) \<noteq> None"
    using example_fed_flags by (simp_all add: stop_def stop_recording_def Let_def)
  show ?thesis
    using stop_twice_is_noop[of example_idle example_env "video_recorder example_idle" example_env]
      stop_twice_is_noop[of example_fed example_env "video_recorder example_fed" example_env]
      idle first example_fed_flags
    by simp
qed

text \<open>
  Claim C10. \<^verbatim>\<open>VideoRecorder.start_recording\<close> on a recorder that is recording
  returns \<^verbatim>\<open>False\<close> and leaves the recorder as it was, every field of it.
\<close>

theorem start_recording_while_recording:
  "recording v \<Longrightarrow> start_recording e distance v = (False, v)"
  by (simp add: start_recording_def)

theorem start_recording_while_recording_witness:
  "recording (video_recorder example_session) \<and>
   start_recording example_env ''2'' (video_recorder example_session) =
     (False, video_recorder example_session)"
  using start_recording_while_recording[OF example_session_flags(3), of example_env "''2''"]
    example_session_flags(3)
  by simp

text \<open>
  Claim C9. \<^verbatim>\<open>CSICollector.start\<close> opens its file for writing: when the file can be
  opened, the file holds the header row and nothing else afterwards, whatever it
  held before. The controller's file name is made of the distance label alone,
  \<^verbatim>\<open>csi_{distance}m.csv\<close> in the CSI directory, so a start request that succeeds
  leaves the file of its label with the header only: the rows of an earlier session
  with the same label are gone.
\<close>

theorem start_truncates_csv:
  "(can_open e p \<longrightarrow>
      fst (start e p duration w) = Inr True \<and>
      files (snd (start e p duration w)) p = Some [headers]) \<and>
   csv_file_for distance = CSI_DIR @ ''/csi_'' @ distance @ ''m.csv'' \<and>
   (fst (start_collection e ev (JsonObject (Some distance)) w) = Started cid f dst devs vs vp \<longrightarrow>
      f = csv_file_for distance \<and>
      files (snd (start_collection e ev (JsonObject (Some distance)) w)) (csv_file_for distance) =
        Some [headers])"
  using start_result[of e p duration w] start_files[of e p duration w]
    start_collection_started[of e ev "Some distance" w cid f dst devs vs vp]
  by (auto simp: csv_file_for_def)

theorem start_truncates_csv_witness:
  "can_open example_env_later (csv_file_for ''1'') \<and>
   files example_stopped (csv_file_for ''1'') =
     Some [headers,
           [''2024-01-01T12:00:01.000000'', ''1'', ''aa:bb:cc:dd:ee:ff'', ''-65'', ''11'', ''1'', ''4'', ''...''],
           [''2024-01-01T12:00:02.000000'', ''2'', ''aa:bb:cc:dd:ee:ff'', ''-70'', ''11'', ''1'', ''4'', ''...'']] \<and>
   files (snd (start example_env_later (csv_file_for ''1'') None example_stopped)) (csv_file_for ''1'') =
     Some [headers] \<and>
   fst (start_collection example_env_later example_env_later_video (JsonObject (Some ''1'')) example_stopped) =
     Started ''20240101_130000'' (csv_file_for ''1'') ''1'' [''COM3''] True
       (Some (video_path ''1'' ''20240101_130003'')) \<and>
   files (snd (start_collection example_env_later example_env_later_video (JsonObject (Some ''1'')) example_stopped))
     (csv_file_for ''1'') = Some [headers]"
proof -
  have o: "can_open example_env_later (csv_file_for ''1'')"
    by (simp add: example_env_later_def example_env_def)
  note t = start_truncates_csv[of example_env_later "csv_file_for ''1''" None example_stopped "''1''"
        example_env_later_video "''20240101_130000''" "csv_file_for ''1''" "''1''" "[''COM3'']" True
        "Some (video_path ''1'' ''20240101_130003'')"]
  have a: "files (snd (start example_env_later (csv_file_for ''1'') None example_stopped))
             (csv_file_for ''1'') = Some [headers]"
    using t o by blast
  have b: "files (snd (start_collection example_env_later example_env_later_video (JsonObject (Some ''1'')) example_stopped))
             (csv_file_for ''1'') = Some [headers]"
    using t started_again by blast
  show ?thesis
    using o example_stopped_facts(3) a started_again b by blast
qed

subsection \<open>The start request\<close>

text \<open>
  Claim C3, as the code has it. A start request that finds no device connected (or
  no handler at all) makes the controller attempt no reconnect: the handler and the
  trace of discovery runs and commands are left as they were, whatever the body of
  the request and whether or not a session is active. If its body is a JSON object
  and no session is active, the request is answered at once with the error 400
  \<^verbatim>\<open>No ESP32 devices connected. Please connect ESP32 and restart server.\<close> and
  nothing at all is changed, also when a discovery run would find a device.
\<close>

theorem start_without_device:
  assumes "case esp32_serial_handler w of None \<Rightarrow> True | Some h \<Rightarrow> serial_connections h = []"
  shows "esp32_serial_handler (snd (start_collection e ev req w)) = esp32_serial_handler w \<and>
         trace (snd (start_collection e ev req w)) = trace w \<and>
         (\<not> collection_active w \<longrightarrow>
            start_collection e ev (JsonObject d) w =
              (Error 400 ''No ESP32 devices connected. Please connect ESP32 and restart server.'',
               w))"
proof -
  have rejected: "start_collection e ev (JsonObject d') w =
      (Error 400 ''No ESP32 devices connected. Please connect ESP32 and restart server.'', w)"
    if "\<not> collection_active w" for d'
    using that assms
    by (simp add: start_collection_def get_connected_devices_def split: option.splits)
  have kept: "esp32_serial_handler (snd (start_collection e ev req w)) = esp32_serial_handler w \<and>
         trace (snd (start_collection e ev req w)) = trace w"
  proof (cases req)
    case NotAnObject
    then show ?thesis by (simp add: start_collection_def)
  next
    case (JsonObject d')
    show ?thesis
    proof (cases "collection_active w")
      case True
      then show ?thesis
        using JsonObject start_collection_while_active[of w e ev d'] by simp
    next
      case False
      then show ?thesis
        using JsonObject rejected[of d'] by simp
    qed
  qed
  show ?thesis
    using kept rejected[of d] by blast
qed

theorem start_without_device_witness:
  "(case esp32_serial_handler example_no_device of
      None \<Rightarrow> False
    | Some h \<Rightarrow> serial_connections h = []) \<and>
   scan example_env = [''COM3''] \<and>
   \<not> collection_active example_no_device \<and>
   start_collection example_env example_env_video (JsonObject None) example_no_device =
     (Error 400 ''No ESP32 devices connected. Please connect ESP32 and restart server.'',
      example_no_device) \<and>
   esp32_serial_handler
     (snd (start_collection example_env example_env_video NotAnObject example_no_device)) =
     esp32_serial_handler example_no_device \<and>
   trace (snd (start_collection example_env example_env_video NotAnObject example_no_device)) =
     [Discovery]"
proof -
  have h: "case esp32_serial_handler example_no_device of
             None \<Rightarrow> True | Some h \<Rightarrow> serial_connections h = []"
    and h': "case esp32_serial_handler example_no_device of
             None \<Rightarrow> False | Some h \<Rightarrow> serial_connections h = []"
    and a: "\<not> collection_active example_no_device"
    and t: "trace example_no_device = [Discovery]"
    by (simp_all add: example_no_device_value)
  have sc: "scan example_env = [''COM3'']"
    by (simp add: example_env_def)
  show ?thesis
    using start_without_device[OF h, of example_env example_env_video NotAnObject None]
      h' a t sc
    by simp
qed

text \<open>The claim as stated has the controller reconnect before it rejects. Here the
  module was loaded before the radio was plugged in; at the time of the request a
  discovery run would connect \<^verbatim>\<open>COM3\<close>, and the request is rejected all the same,
  with no discovery in the trace.\<close>

theorem start_collection_no_reconnect_counterexample:
  "(case esp32_serial_handler example_no_device of
      None \<Rightarrow> False
    | Some h \<Rightarrow> serial_connections h = [] \<and>
               serial_connections (auto_connect example_env h) = [''COM3'']) \<and>
   start_collection example_env example_env_video (JsonObject (Some ''1'')) example_no_device =
     (Error 400 ''No ESP32 devices connected. Please connect ESP32 and restart server.'',
      example_no_device) \<and>
   count_list (trace (snd (start_collection example_env example_env_video (JsonObject (Some ''1'')) example_no_device)))
     Discovery = count_list (trace example_no_device) Discovery"
  by (simp add: example_no_device_value start_collection_def get_connected_devices_def
      CSICollector_init_def auto_connect_def example_env_def)

text \<open>
  Claim C2 asks that a start which fails after the flags were set restores both of
  them. On the code: a start request with a device connected and no session active,
  whose CSV file cannot be opened, is answered by the exception handler; the handler
  clears \<^verbatim>\<open>collection_active\<close>, and the collector's own flag, set by
  \<^verbatim>\<open>CSICollector.start\<close> before the \<^verbatim>\<open>open\<close>, stays set.
\<close>

theorem start_collection_open_failure:
  assumes "\<not> collection_active w" and "esp32_serial_handler w = Some h"
    and "serial_connections h \<noteq> []" and "dirs_ok e" and "\<not> can_open e (csv_file_for distance)"
  shows "fst (start_collection e ev (JsonObject (Some distance)) w) = Failed OSError \<and>
         \<not> collection_active (snd (start_collection e ev (JsonObject (Some distance)) w)) \<and>
         active (csi_collector (snd (start_collection e ev (JsonObject (Some distance)) w)))"
proof -
  obtain r w1 where s: "start e (csv_file_for distance) None w = (r, w1)"
    by (cases "start e (csv_file_for distance) None w")
  have r: "r = Inl OSError"
    using start_result[of e "csv_file_for distance" None w] s assms(5) by simp
  have "active (csi_collector w1)"
    using start_flags(1)[of e "csv_file_for distance" None w] s by simp
  then show ?thesis
    using assms s r
    by (simp add: start_collection_def get_connected_devices_def)
qed

theorem start_collection_open_failure_witness:
  "\<not> collection_active example_idle \<and> \<not> active (csi_collector example_idle) \<and>
   dirs_ok example_env_readonly \<and> \<not> can_open example_env_readonly (csv_file_for ''1'') \<and>
   fst (start_collection example_env_readonly example_env_readonly (JsonObject (Some ''1'')) example_idle) = Failed OSError \<and>
   \<not> collection_active (snd (start_collection example_env_readonly example_env_readonly (JsonObject (Some ''1'')) example_idle)) \<and>
   active (csi_collector (snd (start_collection example_env_readonly example_env_readonly (JsonObject (Some ''1'')) example_idle)))"
proof -
  let ?h = "\<lparr>serial_available = True, serial_connections = [''COM3''],
              serial_threads = {}, serial_listening = Map.empty\<rparr>"
  have h: "esp32_serial_handler example_idle = Some ?h"
    and a: "\<not> collection_active example_idle" "\<not> active (csi_collector example_idle)"
    by (simp_all add: example_idle_value CSICollector_init_def)
  have c: "serial_connections ?h \<noteq> []"
    by simp
  have d: "dirs_ok example_env_readonly" and o: "\<not> can_open example_env_readonly (csv_file_for ''1'')"
    by (simp_all add: example_env_readonly_def example_env_def)
  show ?thesis
    using start_collection_open_failure[OF a(1) h c d o] a d o by simp
qed

text \<open>
  Claim C7 asks that a start request during a session is rejected as already
  active and changes nothing. On the code, for a request whose body is not a JSON
  object: \<^verbatim>\<open>data.get\<close> raises before the flag is tested, and the exception handler
  clears \<^verbatim>\<open>collection_active\<close> of the running session. (A request with an object
  body is rejected by the guard, \<open>start_collection_while_active\<close>.) In the run below
  the next well-formed request is then accepted while the collector is still
  active, and empties the file of the session that was never stopped.
\<close>

theorem start_collection_bad_body_while_active:
  "collection_active w \<Longrightarrow>
   start_collection e ev NotAnObject w = (Failed AttributeError, w\<lparr>collection_active := False\<rparr>)"
  by (simp add: start_collection_def)

theorem start_collection_bad_body_while_active_witness:
  "collection_active example_fed \<and> active (csi_collector example_fed) \<and>
   start_collection example_env example_env_video NotAnObject example_fed =
     (Failed AttributeError, example_fed\<lparr>collection_active := False\<rparr>) \<and>
   files example_fed (csv_file_for ''1'') =
     Some [headers,
           [''2024-01-01T12:00:01.000000'', ''1'', ''aa:bb:cc:dd:ee:ff'', ''-65'', ''11'', ''1'', ''4'', ''...''],
           [''2024-01-01T12:00:02.000000'', ''2'', ''aa:bb:cc:dd:ee:ff'', ''-70'', ''11'', ''1'', ''4'', ''...'']] \<and>
   fst (start_collection example_env_later example_env_later_video (JsonObject (Some ''1''))
          (snd (start_collection example_env example_env_video NotAnObject example_fed))) =
     Started ''20240101_130000'' (csv_file_for ''1'') ''1'' [''COM3''] False None \<and>
   files (snd (start_collection example_env_later example_env_later_video (JsonObject (Some ''1''))
                 (snd (start_collection example_env example_env_video NotAnObject example_fed))))
     (csv_file_for ''1'') = Some [headers]"
proof -
  have again: "fst (start_collection example_env_later example_env_later_video (JsonObject (Some ''1''))
          (snd (start_collection example_env example_env_video NotAnObject example_fed))) =
     Started ''20240101_130000'' (csv_file_for ''1'') ''1'' [''COM3''] False None"
    by code_simp
  have gone: "files (snd (start_collection example_env_later example_env_later_video (JsonObject (Some ''1''))
                 (snd (start_collection example_env example_env_video NotAnObject example_fed))))
     (csv_file_for ''1'') = Some [headers]"
    by code_simp
  show ?thesis
    using start_collection_bad_body_while_active[OF example_fed_flags(1), of example_env
        example_env_video]
      example_fed_flags(1,2) example_fed_facts(5) again gone
    by blast
qed

end
